theory Spec2Isabelle
  imports Complex_Main "HOL-Library.Char_ord" "HOL-Library.List_Lexorder"
begin

section \<open>Ledger store\<close>

text \<open>
  The tables of \<^verbatim>\<open>init_db\<close> (src/app.py, lines 156-213), one record per row type.
  A \<^verbatim>\<open>TEXT\<close> value is a \<^typ>\<open>string\<close> holding the UTF-8 bytes SQLite stores, and the
  order on strings is the byte-wise lexicographic order that the default \<^verbatim>\<open>BINARY\<close>
  collation compares with. A column without \<^verbatim>\<open>NOT NULL\<close> is an \<open>option\<close>. A table is the
  list of its rows.

  The \<^verbatim>\<open>REAL\<close> columns are IEEE doubles in SQLite and Python. They are idealised here as
  \<^typ>\<open>real\<close>: rounding is outside this model, and nothing below is a statement about it.
\<close>

record trip =
  trip_id :: int
  trip_user_id :: int
  trip_title :: string
  trip_start_date :: string
  trip_end_date :: string
  trip_daily_limit :: "real option"
  trip_status :: string

record deposit =
  dep_id :: int
  dep_user_id :: int
  dep_trip_id :: "int option"
  dep_amount :: real
  dep_date :: string
  dep_note :: "string option"

record expense =
  exp_id :: int
  exp_trip_id :: int
  exp_user_id :: int
  exp_date :: string
  exp_category :: string
  exp_description :: "string option"
  exp_amount :: real
  exp_receipt_path :: "string option"
  exp_status :: string
  exp_created_at :: string

record db =
  tbl_trips :: "trip list"
  tbl_deposits :: "deposit list"
  tbl_expenses :: "expense list"

section \<open>SQL and Python primitives\<close>

text \<open>Python's truth value of a \<^verbatim>\<open>str | None\<close>: \<^verbatim>\<open>None\<close> and the empty string are false.\<close>

definition truthy :: "string option \<Rightarrow> bool" where
  "truthy s = (case s of None \<Rightarrow> False | Some v \<Rightarrow> v \<noteq> [])"

text \<open>\<^verbatim>\<open>x BETWEEN lo AND hi\<close> on text values.\<close>

definition between :: "string \<Rightarrow> string \<Rightarrow> string \<Rightarrow> bool" where
  "between x lo hi = (lo \<le> x \<and> x \<le> hi)"

text \<open>
  The period clause both helpers build: \<^verbatim>\<open>if start and end: where.append("date BETWEEN ? AND ?")\<close>,
  bound to \<^verbatim>\<open>[start, end]\<close>; without it the \<^verbatim>\<open>WHERE\<close> has no condition on the date.
\<close>

definition where_period :: "string option \<Rightarrow> string option \<Rightarrow> string \<Rightarrow> bool" where
  "where_period start end d =
     (case start of
        None \<Rightarrow> True
      | Some s \<Rightarrow>
          (case end of
             None \<Rightarrow> True
           | Some e \<Rightarrow> if s \<noteq> [] \<and> e \<noteq> [] then between d s e else True))"

text \<open>The status clause: \<^verbatim>\<open>if not include_rejected: where.append("status!='rejeitado'")\<close>.\<close>

definition where_status :: "bool \<Rightarrow> string \<Rightarrow> bool" where
  "where_status include_rejected st = (if include_rejected then True else st \<noteq> ''rejeitado'')"

text \<open>\<^verbatim>\<open>SUM\<close> over no rows is \<^verbatim>\<open>NULL\<close>; \<^verbatim>\<open>COALESCE(v, d)\<close> replaces a \<^verbatim>\<open>NULL\<close>.\<close>

definition sql_sum :: "real list \<Rightarrow> real option" where
  "sql_sum xs = (if xs = [] then None else Some (sum_list xs))"

definition coalesce :: "'a option \<Rightarrow> 'a \<Rightarrow> 'a" where
  "coalesce v d = (case v of None \<Rightarrow> d | Some x \<Rightarrow> x)"

section \<open>Totals\<close>

text \<open>
  \<^verbatim>\<open>calc_user_totals\<close> (lines 266-304). The two queries are
  \<^verbatim>\<open>SELECT COALESCE(SUM(amount),0) s FROM deposits WHERE user_id=? [AND date BETWEEN ? AND ?]\<close> and
  the same over \<^verbatim>\<open>expenses\<close> with \<^verbatim>\<open>[AND status!='rejeitado']\<close>. The result dictionary has the
  keys \<^verbatim>\<open>deposits\<close>, \<^verbatim>\<open>expenses\<close>, \<^verbatim>\<open>balance\<close>.
\<close>

record totals =
  deposits :: real
  expenses :: real
  balance :: real

definition q_dep :: "db \<Rightarrow> int \<Rightarrow> string option \<Rightarrow> string option \<Rightarrow> real" where
  "q_dep conn user_id start end =
     coalesce (sql_sum (map dep_amount
       (filter (\<lambda>d. dep_user_id d = user_id \<and> where_period start end (dep_date d))
          (tbl_deposits conn)))) 0"

definition q_exp :: "db \<Rightarrow> int \<Rightarrow> string option \<Rightarrow> string option \<Rightarrow> bool \<Rightarrow> real" where
  "q_exp conn user_id start end include_rejected =
     coalesce (sql_sum (map exp_amount
       (filter (\<lambda>e. exp_user_id e = user_id \<and> where_period start end (exp_date e)
                    \<and> where_status include_rejected (exp_status e))
          (tbl_expenses conn)))) 0"

definition calc_user_totals ::
  "db \<Rightarrow> int \<Rightarrow> string option \<Rightarrow> string option \<Rightarrow> bool \<Rightarrow> totals" where
  "calc_user_totals conn user_id start end include_rejected =
     (let total_dep = q_dep conn user_id start end;
          total_exp = q_exp conn user_id start end include_rejected
      in \<lparr>deposits = total_dep, expenses = total_exp, balance = total_dep - total_exp\<rparr>)"

section \<open>Statement\<close>

text \<open>
  One row of the unified statement: the columns \<^verbatim>\<open>date, type, description, trip, status, amount\<close>
  of the \<^verbatim>\<open>UNION ALL\<close> query of \<^verbatim>\<open>fetch_user_statement\<close> (lines 307-360).
\<close>

record row =
  row_date :: string
  row_type :: string
  row_description :: string
  row_trip :: string
  row_status :: string
  row_amount :: real

text \<open>The literals of the query, as UTF-8 bytes: \<^verbatim>\<open>'Dep\<close>o-acute\<^verbatim>\<open>sito'\<close>, \<^verbatim>\<open>'Despesa'\<close>, the em dash
  placeholder and the bullet separator.\<close>

definition Deposito :: string where
  "Deposito = ''Dep'' @ [CHR 0xC3, CHR 0xB3] @ ''sito''"

definition Despesa :: string where
  "Despesa = ''Despesa''"

definition dash :: string where
  "dash = [CHR 0xE2, CHR 0x80, CHR 0x94]"

definition bullet :: string where
  "bullet = '' '' @ [CHR 0xE2, CHR 0x80, CHR 0xA2] @ '' ''"

text \<open>
  \<^verbatim>\<open>deposits d LEFT JOIN trips t ON t.id = d.trip_id\<close>: one joined row per matching trip, and
  one row with a \<^verbatim>\<open>NULL\<close> trip when none matches (a \<^verbatim>\<open>NULL\<close> \<^verbatim>\<open>trip_id\<close> matches nothing).
  \<^verbatim>\<open>expenses e JOIN trips t2 ON t2.id = e.trip_id\<close>: one joined row per matching trip, none
  when no trip matches.
\<close>

definition left_join_trips :: "trip list \<Rightarrow> int option \<Rightarrow> trip option list" where
  "left_join_trips ts tid =
     (case filter (\<lambda>t. Some (trip_id t) = tid) ts of
        [] \<Rightarrow> [None]
      | m # ms \<Rightarrow> map Some (m # ms))"

definition join_trips :: "trip list \<Rightarrow> int \<Rightarrow> trip list" where
  "join_trips ts tid = filter (\<lambda>t. trip_id t = tid) ts"

definition select_dep :: "deposit \<Rightarrow> trip option \<Rightarrow> row" where
  "select_dep d t =
     \<lparr>row_date = dep_date d,
      row_type = Deposito,
      row_description = coalesce (dep_note d) [],
      row_trip = coalesce (map_option trip_title t) dash,
      row_status = [],
      row_amount = dep_amount d\<rparr>"

definition select_exp :: "expense \<Rightarrow> trip \<Rightarrow> row" where
  "select_exp e t2 =
     \<lparr>row_date = exp_date e,
      row_type = Despesa,
      row_description =
        exp_category e @
          (case exp_description e of
             None \<Rightarrow> []
           | Some ds \<Rightarrow> if ds \<noteq> [] then bullet @ ds else []),
      row_trip = coalesce (Some (trip_title t2)) dash,
      row_status = exp_status e,
      row_amount = - exp_amount e\<rparr>"

definition dep_rows :: "db \<Rightarrow> int \<Rightarrow> string option \<Rightarrow> string option \<Rightarrow> row list" where
  "dep_rows conn user_id start end =
     concat (map (\<lambda>d. map (select_dep d) (left_join_trips (tbl_trips conn) (dep_trip_id d)))
       (filter (\<lambda>d. dep_user_id d = user_id \<and> where_period start end (dep_date d))
          (tbl_deposits conn)))"

definition exp_rows :: "db \<Rightarrow> int \<Rightarrow> string option \<Rightarrow> string option \<Rightarrow> bool \<Rightarrow> row list" where
  "exp_rows conn user_id start end include_rejected =
     concat (map (\<lambda>e. map (select_exp e) (join_trips (tbl_trips conn) (exp_trip_id e)))
       (filter (\<lambda>e. exp_user_id e = user_id \<and> where_period start end (exp_date e)
                    \<and> where_status include_rejected (exp_status e))
          (tbl_expenses conn)))"

text \<open>
  \<^verbatim>\<open>ORDER BY date ASC, type DESC\<close>: \<open>row_le a b\<close> says that \<open>a\<close> may stand before \<open>b\<close>.
  The sort is an insertion sort that keeps the order of rows equal on both keys; SQL leaves
  that order open, and no statement below depends on it.
\<close>

definition row_le :: "row \<Rightarrow> row \<Rightarrow> bool" where
  "row_le a b =
     (row_date a < row_date b \<or> (row_date a = row_date b \<and> row_type b \<le> row_type a))"

fun insort_row :: "row \<Rightarrow> row list \<Rightarrow> row list" where
  "insort_row x [] = [x]"
| "insort_row x (y # ys) = (if row_le x y then x # y # ys else y # insort_row x ys)"

definition order_by :: "row list \<Rightarrow> row list" where
  "order_by rs = foldr insort_row rs []"

definition fetch_user_statement ::
  "db \<Rightarrow> int \<Rightarrow> string option \<Rightarrow> string option \<Rightarrow> bool \<Rightarrow> row list" where
  "fetch_user_statement conn user_id start end include_rejected =
     order_by (dep_rows conn user_id start end @ exp_rows conn user_id start end include_rejected)"

section \<open>Approval workflow\<close>

text \<open>
  The Flask session keys the decorator reads, and what a view returns: \<^verbatim>\<open>abort(code)\<close>, or a
  redirect to an endpoint after \<^verbatim>\<open>flash(message, category)\<close>.
\<close>

record session =
  sess_user_id :: "int option"
  sess_role :: "string option"

datatype response = Abort nat | Redirect string string string

text \<open>
  \<^verbatim>\<open>login_required(role)\<close> (lines 240-251): \<open>Inl\<close> is the response that replaces the view,
  \<open>Inr ()\<close> lets the view run.
\<close>

definition login_required :: "string option \<Rightarrow> session \<Rightarrow> response + unit" where
  "login_required role sess =
     (if sess_user_id sess = None
      then Inl (Redirect ''login'' ''warning''
                  (''Fa'' @ [CHR 0xC3, CHR 0xA7] @ ''a login para continuar.''))
      else if truthy role \<and> sess_role sess \<noteq> role then Inl (Abort 403)
      else Inr ())"

text \<open>
  \<^verbatim>\<open>admin_set_expense_status\<close> (lines 1123-1133): the response and the store after the call.
  \<^verbatim>\<open>UPDATE expenses SET status=? WHERE id=?\<close> rewrites every row with that id and raises
  nothing when there is none.
\<close>

definition update_expense_status :: "string \<Rightarrow> int \<Rightarrow> db \<Rightarrow> db" where
  "update_expense_status status expense_id conn =
     conn\<lparr>tbl_expenses :=
       map (\<lambda>e. if exp_id e = expense_id then e\<lparr>exp_status := status\<rparr> else e)
         (tbl_expenses conn)\<rparr>"

definition admin_set_expense_status :: "session \<Rightarrow> int \<Rightarrow> string \<Rightarrow> db \<Rightarrow> response \<times> db" where
  "admin_set_expense_status sess expense_id status conn =
     (case login_required (Some ''admin'') sess of
        Inl r \<Rightarrow> (r, conn)
      | Inr _ \<Rightarrow>
          if status \<notin> set [''aprovado'', ''rejeitado'', ''pendente''] then (Abort 400, conn)
          else (Redirect ''admin_dashboard'' ''success''
                  (''Despesa marcada como '' @ status @ ''.''),
                update_expense_status status expense_id conn))"

section \<open>Example data\<close>

definition trip1 :: trip where
  "trip1 = \<lparr>trip_id = 1, trip_user_id = 1, trip_title = ''Cliente XYZ'',
            trip_start_date = ''2024-03-01'', trip_end_date = ''2024-03-01'',
            trip_daily_limit = Some 0, trip_status = ''aberta''\<rparr>"

definition dep1 :: deposit where
  "dep1 = \<lparr>dep_id = 1, dep_user_id = 1, dep_trip_id = None, dep_amount = 300,
           dep_date = ''2024-03-10'', dep_note = Some ''adiantamento''\<rparr>"

definition exp_ok :: expense where
  "exp_ok = \<lparr>exp_id = 1, exp_trip_id = 1, exp_user_id = 1, exp_date = ''2024-03-10'',
             exp_category = ''Transporte'', exp_description = Some ''taxi'', exp_amount = 100,
             exp_receipt_path = Some [], exp_status = ''aprovado'',
             exp_created_at = ''2024-03-10T12:00:00''\<rparr>"

definition exp_rej :: expense where
  "exp_rej = \<lparr>exp_id = 2, exp_trip_id = 1, exp_user_id = 1, exp_date = ''2024-03-05'',
              exp_category = ''Outros'', exp_description = Some [], exp_amount = 50,
              exp_receipt_path = Some [], exp_status = ''rejeitado'',
              exp_created_at = ''2024-03-05T09:30:00''\<rparr>"

definition db1 :: db where
  "db1 = \<lparr>tbl_trips = [trip1], tbl_deposits = [dep1], tbl_expenses = [exp_ok, exp_rej]\<rparr>"

text \<open>
  An expense whose \<^verbatim>\<open>trip_id\<close> names no trip. \<^verbatim>\<open>api_expenses_create\<close> (lines 1418-1445)
  inserts \<^verbatim>\<open>int(request.form.get('trip_id'))\<close> unchecked, and \<^verbatim>\<open>get_db\<close> never turns
  \<^verbatim>\<open>PRAGMA foreign_keys\<close> on, so SQLite accepts the row.
\<close>

definition exp_orphan :: expense where
  "exp_orphan = \<lparr>exp_id = 3, exp_trip_id = 99, exp_user_id = 1, exp_date = ''2024-03-12'',
                 exp_category = ''Hospedagem'', exp_description = Some [], exp_amount = 80,
                 exp_receipt_path = Some [], exp_status = ''pendente'',
                 exp_created_at = ''2024-03-12T08:00:00''\<rparr>"

definition db2 :: db where
  "db2 = \<lparr>tbl_trips = [trip1], tbl_deposits = [dep1], tbl_expenses = [exp_orphan]\<rparr>"

text \<open>The session of a logged-in administrator.\<close>

definition admin_sess :: session where
  "admin_sess = \<lparr>sess_user_id = Some 7, sess_role = Some ''admin''\<rparr>"

lemmas example_defs =
  trip1_def dep1_def exp_ok_def exp_rej_def exp_orphan_def db1_def db2_def admin_sess_def

lemmas query_defs =
  calc_user_totals_def q_dep_def q_exp_def fetch_user_statement_def dep_rows_def exp_rows_def
  order_by_def where_period_def where_status_def between_def left_join_trips_def join_trips_def
  select_dep_def select_exp_def row_le_def sql_sum_def coalesce_def Deposito_def Despesa_def

section \<open>One-sided periods\<close>

lemma where_period_start_only: "where_period (Some s) None d"
  by (simp add: where_period_def)

lemma where_period_end_only: "where_period None (Some e) d"
  by (simp add: where_period_def)

lemma where_period_none: "where_period None None d"
  by (simp add: where_period_def)

text \<open>
  C10. When only one endpoint of the period is given (\<open>start\<close> with \<open>end = None\<close>, or \<open>end\<close>
  with \<open>start = None\<close>), \<open>calc_user_totals\<close> and \<open>fetch_user_statement\<close> return what they return
  with no period at all: the single date filters nothing.
\<close>

theorem one_sided_period_is_all_time:
  "calc_user_totals conn u (Some s) None inc = calc_user_totals conn u None None inc
   \<and> calc_user_totals conn u None (Some e) inc = calc_user_totals conn u None None inc
   \<and> fetch_user_statement conn u (Some s) None inc = fetch_user_statement conn u None None inc
   \<and> fetch_user_statement conn u None (Some e) inc = fetch_user_statement conn u None None inc"
  by (simp add: calc_user_totals_def q_dep_def q_exp_def fetch_user_statement_def
      dep_rows_def exp_rows_def where_period_start_only where_period_end_only
      where_period_none)

section \<open>Ordering of the statement\<close>

lemma Deposito_less_Despesa: "Deposito < Despesa"
  by (simp add: Deposito_def Despesa_def)

lemma Deposito_neq_Despesa: "Deposito \<noteq> Despesa"
  using Deposito_less_Despesa by simp

lemma row_le_total: "row_le a b \<or> row_le b a"
  by (auto simp: row_le_def)

lemma row_le_trans: "row_le a b \<Longrightarrow> row_le b c \<Longrightarrow> row_le a c"
  by (auto simp: row_le_def)

lemma row_le_date: "row_le a b \<Longrightarrow> row_date a \<le> row_date b"
  by (auto simp: row_le_def)

lemma set_insort_row: "set (insort_row x xs) = insert x (set xs)"
  by (induction xs) auto

lemma set_order_by: "set (order_by rs) = set rs"
  by (induction rs) (simp_all add: order_by_def set_insort_row)

lemma length_insort_row: "length (insort_row x xs) = Suc (length xs)"
  by (induction xs) auto

lemma sum_insort_row:
  "sum_list (map row_amount (insort_row x xs)) = row_amount x + sum_list (map row_amount xs)"
  by (induction xs) auto

lemma sum_order_by: "sum_list (map row_amount (order_by rs)) = sum_list (map row_amount rs)"
  by (induction rs) (simp_all add: order_by_def sum_insort_row)

lemma sorted_insort_row:
  "sorted_wrt row_le xs \<Longrightarrow> sorted_wrt row_le (insort_row x xs)"
proof (induction xs)
  case Nil
  show ?case by simp
next
  case (Cons y ys)
  show ?case
  proof (cases "row_le x y")
    case True
    have "\<forall>z\<in>set ys. row_le x z"
      using Cons.prems True row_le_trans by auto
    with True Cons.prems show ?thesis by simp
  next
    case False
    then have "row_le y x" using row_le_total by blast
    with False Cons show ?thesis by (auto simp: set_insort_row)
  qed
qed

lemma sorted_order_by: "sorted_wrt row_le (order_by rs)"
  by (induction rs) (simp_all add: order_by_def sorted_insort_row)




lemma dep_rows_type: "r \<in> set (dep_rows conn u s e) \<Longrightarrow> row_type r = Deposito"
  by (auto simp: dep_rows_def select_dep_def)

lemma exp_rows_type: "r \<in> set (exp_rows conn u s e inc) \<Longrightarrow> row_type r = Despesa"
  by (auto simp: exp_rows_def select_exp_def)

lemma statement_row_cases:
  "r \<in> set (fetch_user_statement conn u s e inc) \<Longrightarrow>
   r \<in> set (dep_rows conn u s e) \<or> r \<in> set (exp_rows conn u s e inc)"
  by (auto simp: fetch_user_statement_def set_order_by)

lemma statement_sorted: "sorted_wrt row_le (fetch_user_statement conn u s e inc)"
  by (simp add: fetch_user_statement_def sorted_order_by)

lemma statement_row_type:
  "r \<in> set (fetch_user_statement conn u s e inc) \<Longrightarrow>
   row_type r = Deposito \<or> row_type r = Despesa"
  using statement_row_cases dep_rows_type exp_rows_type by blast

lemma left_join_trips_nonempty: "left_join_trips ts tid \<noteq> []"
  by (simp add: left_join_trips_def split: list.split)

lemma dep_row_in_statement:
  assumes "d \<in> set (tbl_deposits conn)" "dep_user_id d = u" "where_period s e (dep_date d)"
  shows "\<exists>t. select_dep d t \<in> set (fetch_user_statement conn u s e inc)"
proof -
  obtain t where "t \<in> set (left_join_trips (tbl_trips conn) (dep_trip_id d))"
    using left_join_trips_nonempty [of "tbl_trips conn" "dep_trip_id d"]
    by (cases "left_join_trips (tbl_trips conn) (dep_trip_id d)") auto
  with assms have "select_dep d t \<in> set (dep_rows conn u s e)"
    by (auto simp: dep_rows_def)
  then show ?thesis
    by (auto simp: fetch_user_statement_def set_order_by)
qed

lemma exp_row_in_statement:
  assumes "x \<in> set (tbl_expenses conn)" "exp_user_id x = u" "where_period s e (exp_date x)"
    "where_status inc (exp_status x)" "t \<in> set (tbl_trips conn)" "trip_id t = exp_trip_id x"
  shows "select_exp x t \<in> set (fetch_user_statement conn u s e inc)"
proof -
  from assms have "select_exp x t \<in> set (exp_rows conn u s e inc)"
    by (auto simp: exp_rows_def join_trips_def)
  then show ?thesis
    by (auto simp: fetch_user_statement_def set_order_by)
qed

lemma statement_tie:
  assumes "i < j" "j < length (fetch_user_statement conn u s e inc)"
    "row_date (fetch_user_statement conn u s e inc ! i) = row_date (fetch_user_statement conn u s e inc ! j)"
    "row_type (fetch_user_statement conn u s e inc ! i) = Deposito"
  shows "row_type (fetch_user_statement conn u s e inc ! j) = Deposito"
proof -
  let ?st = "fetch_user_statement conn u s e inc"
  have "row_le (?st ! i) (?st ! j)"
    using statement_sorted assms(1,2) by (rule sorted_wrt_nth_less)
  with assms(3,4) have le: "row_type (?st ! j) \<le> Deposito"
    by (simp add: row_le_def)
  have "?st ! j \<in> set ?st" using assms(2) by simp
  then have "row_type (?st ! j) = Deposito \<or> row_type (?st ! j) = Despesa"
    by (rule statement_row_type)
  with le Deposito_less_Despesa show ?thesis by auto
qed

text \<open>
  C2, as the code has it. The statement is ordered by date ascending. Among rows of one
  date the order is \<^verbatim>\<open>type DESC\<close>, and \<^verbatim>\<open>'Despesa'\<close> is the greater string (its third byte is
  \<^verbatim>\<open>s\<close>, against \<^verbatim>\<open>p\<close>), so every expense row stands before every deposit row: after a deposit
  row only deposit rows of that date follow. A deposit and an expense of the same date that
  pass the filters, the expense's trip being in the store, both appear, the expense first.
\<close>

theorem statement_order:
  "(let st = fetch_user_statement conn u s e inc in
     sorted (map row_date st)
     \<and> (\<forall>i j. i < j \<and> j < length st \<and> row_date (st ! i) = row_date (st ! j)
            \<and> row_type (st ! i) = Deposito \<longrightarrow> row_type (st ! j) = Deposito)
     \<and> (\<forall>d x t. d \<in> set (tbl_deposits conn) \<and> dep_user_id d = u
            \<and> where_period s e (dep_date d)
            \<and> x \<in> set (tbl_expenses conn) \<and> exp_user_id x = u
            \<and> where_period s e (exp_date x) \<and> where_status inc (exp_status x)
            \<and> t \<in> set (tbl_trips conn) \<and> trip_id t = exp_trip_id x
            \<and> dep_date d = exp_date x \<longrightarrow>
          (\<exists>i j t'. i < j \<and> j < length st \<and> st ! i = select_exp x t
                     \<and> st ! j = select_dep d t')))"
proof -
  let ?st = "fetch_user_statement conn u s e inc"
  have dates: "sorted (map row_date ?st)"
  proof -
    have "sorted_wrt (\<lambda>a b. row_date a \<le> row_date b) ?st"
      using statement_sorted [of conn u s e inc]
      by (rule sorted_wrt_mono_rel [rotated]) (simp add: row_le_date)
    then show ?thesis by (simp add: sorted_map)
  qed
  have ties: "\<forall>i j. i < j \<and> j < length ?st \<and> row_date (?st ! i) = row_date (?st ! j)
            \<and> row_type (?st ! i) = Deposito \<longrightarrow> row_type (?st ! j) = Deposito"
    using statement_tie by blast
  have both: "\<exists>i j t'. i < j \<and> j < length ?st \<and> ?st ! i = select_exp x t
                     \<and> ?st ! j = select_dep d t'"
    if d: "d \<in> set (tbl_deposits conn)" "dep_user_id d = u" "where_period s e (dep_date d)"
      and x: "x \<in> set (tbl_expenses conn)" "exp_user_id x = u" "where_period s e (exp_date x)"
        "where_status inc (exp_status x)" "t \<in> set (tbl_trips conn)" "trip_id t = exp_trip_id x"
      and same: "dep_date d = exp_date x"
    for d x t
  proof -
    obtain t' where "select_dep d t' \<in> set ?st"
      using dep_row_in_statement [OF d] by blast
    then obtain j where j: "j < length ?st" "?st ! j = select_dep d t'"
      by (auto simp: in_set_conv_nth)
    have "select_exp x t \<in> set ?st"
      using x by (rule exp_row_in_statement)
    then obtain i where i: "i < length ?st" "?st ! i = select_exp x t"
      by (auto simp: in_set_conv_nth)
    have tj: "row_type (?st ! j) = Deposito" and ti: "row_type (?st ! i) = Despesa"
      using i j by (simp_all add: select_dep_def select_exp_def)
    have dt: "row_date (?st ! j) = row_date (?st ! i)"
      using i j same by (simp add: select_dep_def select_exp_def)
    have "i \<noteq> j" using ti tj Deposito_neq_Despesa by auto
    moreover have "\<not> j < i"
    proof
      assume "j < i"
      then have "row_type (?st ! i) = Deposito"
        using i(1) dt tj by (rule statement_tie)
      with ti Deposito_neq_Despesa show False by simp
    qed
    ultimately have "i < j" by simp
    with i j show ?thesis by blast
  qed
  show ?thesis
    unfolding Let_def using dates ties both by blast
qed

text \<open>
  C3. When every stored deposit and expense amount is positive, a statement row of type
  deposit has an amount \<open>\<ge> 0\<close> and a row of type expense an amount \<open>\<le> 0\<close>, whatever the status
  of the expense.
\<close>

theorem sign_invariant:
  assumes "\<forall>d\<in>set (tbl_deposits conn). 0 < dep_amount d"
    and "\<forall>x\<in>set (tbl_expenses conn). 0 < exp_amount x"
    and "r \<in> set (fetch_user_statement conn u s e inc)"
  shows "(row_type r = Deposito \<longrightarrow> 0 \<le> row_amount r)
       \<and> (row_type r = Despesa \<longrightarrow> row_amount r \<le> 0)"
proof -
  from assms(3) consider
    (dep) "r \<in> set (dep_rows conn u s e)" | (exp) "r \<in> set (exp_rows conn u s e inc)"
    using statement_row_cases by blast
  then show ?thesis
  proof cases
    case dep
    then obtain d t where "d \<in> set (tbl_deposits conn)" "r = select_dep d t"
      by (auto simp: dep_rows_def)
    with assms(1) have "0 < row_amount r" "row_type r = Deposito"
      by (auto simp: select_dep_def)
    with Deposito_neq_Despesa show ?thesis by simp
  next
    case exp
    then obtain x t where "x \<in> set (tbl_expenses conn)" "r = select_exp x t"
      by (auto simp: exp_rows_def)
    with assms(2) have "row_amount r < 0" "row_type r = Despesa"
      by (auto simp: select_exp_def)
    with Deposito_neq_Despesa show ?thesis by simp
  qed
qed

section \<open>The example store, evaluated\<close>

lemma statement_db1:
  "fetch_user_statement db1 1 None None False = [select_exp exp_ok trip1, select_dep dep1 None]"
  by (simp add: query_defs example_defs)

lemma statement_db1_all:
  "fetch_user_statement db1 1 None None True
     = [select_exp exp_rej trip1, select_exp exp_ok trip1, select_dep dep1 None]"
  by (simp add: query_defs example_defs)

text \<open>
  C2 as the spec words it fails: in \<open>db1\<close> the deposit and the approved expense are both dated
  2024-03-10, and the expense row is returned first.
\<close>

theorem same_date_expense_first:
  "fetch_user_statement db1 1 None None False = [select_exp exp_ok trip1, select_dep dep1 None]
   \<and> row_date (select_exp exp_ok trip1) = row_date (select_dep dep1 None)
   \<and> row_type (select_exp exp_ok trip1) = Despesa
   \<and> row_type (select_dep dep1 None) = Deposito"
  by (simp add: statement_db1) (simp add: select_dep_def select_exp_def example_defs)

theorem statement_order_witness:
  "sorted (map row_date (fetch_user_statement db1 1 None None False))
   \<and> dep_date dep1 = exp_date exp_ok
   \<and> (\<exists>i j t'. i < j \<and> j < length (fetch_user_statement db1 1 None None False)
         \<and> fetch_user_statement db1 1 None None False ! i = select_exp exp_ok trip1
         \<and> fetch_user_statement db1 1 None None False ! j = select_dep dep1 t')"
proof -
  note th = statement_order [of db1 1 None None False, unfolded Let_def]
  have hyp: "dep1 \<in> set (tbl_deposits db1) \<and> dep_user_id dep1 = 1
       \<and> where_period None None (dep_date dep1)
       \<and> exp_ok \<in> set (tbl_expenses db1) \<and> exp_user_id exp_ok = 1
       \<and> where_period None None (exp_date exp_ok) \<and> where_status False (exp_status exp_ok)
       \<and> trip1 \<in> set (tbl_trips db1) \<and> trip_id trip1 = exp_trip_id exp_ok
       \<and> dep_date dep1 = exp_date exp_ok"
    by (simp add: example_defs where_period_def where_status_def)
  from th hyp show ?thesis by blast
qed

theorem sign_invariant_witness:
  "0 < dep_amount dep1 \<and> 0 < exp_amount exp_ok \<and> 0 < exp_amount exp_rej
   \<and> select_exp exp_rej trip1 \<in> set (fetch_user_statement db1 1 None None True)
   \<and> row_type (select_exp exp_rej trip1) = Despesa
   \<and> row_amount (select_exp exp_rej trip1) \<le> 0
   \<and> select_dep dep1 None \<in> set (fetch_user_statement db1 1 None None True)
   \<and> row_type (select_dep dep1 None) = Deposito
   \<and> 0 \<le> row_amount (select_dep dep1 None)"
proof -
  have d: "\<forall>d\<in>set (tbl_deposits db1). 0 < dep_amount d"
    and x: "\<forall>x\<in>set (tbl_expenses db1). 0 < exp_amount x"
    by (simp_all add: example_defs)
  have r1: "select_exp exp_rej trip1 \<in> set (fetch_user_statement db1 1 None None True)"
    and r2: "select_dep dep1 None \<in> set (fetch_user_statement db1 1 None None True)"
    by (simp_all add: statement_db1_all)
  have t1: "row_type (select_exp exp_rej trip1) = Despesa"
    and t2: "row_type (select_dep dep1 None) = Deposito"
    by (simp_all add: select_exp_def select_dep_def)
  from sign_invariant [OF d x r1] t1 have "row_amount (select_exp exp_rej trip1) \<le> 0"
    by simp
  moreover from sign_invariant [OF d x r2] t2 have "0 \<le> row_amount (select_dep dep1 None)"
    by simp
  ultimately show ?thesis
    using r1 r2 t1 t2 by (simp add: example_defs)
qed

section \<open>Statement sum and balance\<close>

lemma coalesce_sql_sum: "coalesce (sql_sum xs) 0 = sum_list xs"
  by (simp add: coalesce_def sql_sum_def)

lemma filter_key_distinct:
  "distinct (map trip_id ts) \<Longrightarrow> length (filter (\<lambda>t. trip_id t = k) ts) \<le> 1"
proof (induction ts)
  case Nil
  show ?case by simp
next
  case (Cons t ts)
  show ?case
  proof (cases "trip_id t = k")
    case True
    with Cons.prems have "k \<notin> trip_id ` set ts" by simp
    then have "\<forall>t'\<in>set ts. trip_id t' \<noteq> k" by blast
    then have "filter (\<lambda>t. trip_id t = k) ts = []" by (simp add: filter_empty_conv)
    with True show ?thesis by simp
  next
    case False
    with Cons show ?thesis by simp
  qed
qed

lemma join_trips_single:
  assumes "distinct (map trip_id ts)" "k \<in> trip_id ` set ts"
  shows "\<exists>t. join_trips ts k = [t]"
proof -
  from assms(2) have "filter (\<lambda>t. trip_id t = k) ts \<noteq> []"
    by (auto simp: filter_empty_conv)
  moreover have "length (filter (\<lambda>t. trip_id t = k) ts) \<le> 1"
    using assms(1) by (rule filter_key_distinct)
  ultimately show ?thesis
    unfolding join_trips_def
    by (cases "filter (\<lambda>t. trip_id t = k) ts") (simp_all add: le_Suc_eq)
qed

lemma left_join_trips_single:
  assumes "distinct (map trip_id ts)"
  shows "\<exists>t. left_join_trips ts tid = [t]"
proof (cases tid)
  case None
  then show ?thesis by (simp add: left_join_trips_def)
next
  case (Some k)
  have "length (filter (\<lambda>t. trip_id t = k) ts) \<le> 1"
    using assms by (rule filter_key_distinct)
  then show ?thesis
    unfolding left_join_trips_def Some
    by (cases "filter (\<lambda>t. trip_id t = k) ts") (simp_all add: le_Suc_eq)
qed

lemma sum_dep_rows_joined:
  "distinct (map trip_id ts) \<Longrightarrow>
   sum_list (map row_amount (concat (map (\<lambda>d. map (select_dep d) (left_join_trips ts (dep_trip_id d))) ds)))
     = sum_list (map dep_amount ds)"
proof (induction ds)
  case Nil
  show ?case by simp
next
  case (Cons d ds)
  obtain t where "left_join_trips ts (dep_trip_id d) = [t]"
    using left_join_trips_single [OF Cons.prems] by blast
  with Cons show ?case by (simp add: select_dep_def)
qed

lemma sum_exp_rows_joined:
  "distinct (map trip_id ts) \<Longrightarrow> \<forall>x\<in>set xs. exp_trip_id x \<in> trip_id ` set ts \<Longrightarrow>
   sum_list (map row_amount (concat (map (\<lambda>x. map (select_exp x) (join_trips ts (exp_trip_id x))) xs)))
     = - sum_list (map exp_amount xs)"
proof (induction xs)
  case Nil
  show ?case by simp
next
  case (Cons x xs)
  have "exp_trip_id x \<in> trip_id ` set ts" using Cons.prems(2) by simp
  then obtain t where "join_trips ts (exp_trip_id x) = [t]"
    using join_trips_single [OF Cons.prems(1)] by blast
  with Cons show ?case by (simp add: select_exp_def)
qed

text \<open>
  Where the two computations do agree: trip ids are unique (the primary key) and every
  expense of the user names a trip of the store. Then each deposit and each filtered expense
  gives exactly one statement row, and the signed amounts add up to the balance.
\<close>

lemma statement_sum_eq_balance_if_trips_exist:
  assumes ids: "distinct (map trip_id (tbl_trips conn))"
    and refs: "\<forall>x\<in>set (tbl_expenses conn). exp_user_id x = u \<longrightarrow>
                 exp_trip_id x \<in> trip_id ` set (tbl_trips conn)"
  shows "sum_list (map row_amount (fetch_user_statement conn u s e inc))
           = balance (calc_user_totals conn u s e inc)"
proof -
  have d: "sum_list (map row_amount (dep_rows conn u s e)) = q_dep conn u s e"
    unfolding dep_rows_def q_dep_def coalesce_sql_sum
    using ids by (rule sum_dep_rows_joined)
  have x: "sum_list (map row_amount (exp_rows conn u s e inc)) = - q_exp conn u s e inc"
    unfolding exp_rows_def q_exp_def coalesce_sql_sum
    using ids refs by (intro sum_exp_rows_joined) auto
  have "sum_list (map row_amount (fetch_user_statement conn u s e inc))
          = sum_list (map row_amount (dep_rows conn u s e))
            + sum_list (map row_amount (exp_rows conn u s e inc))"
    by (simp add: fetch_user_statement_def sum_order_by)
  with d x show ?thesis
    by (simp add: calc_user_totals_def Let_def)
qed

lemma statement_sum_eq_balance_db1:
  "sum_list (map row_amount (fetch_user_statement db1 1 None None False))
     = balance (calc_user_totals db1 1 None None False)"
  by (rule statement_sum_eq_balance_if_trips_exist) (simp_all add: example_defs)

text \<open>
  C1 fails on the code. The expense branch of the statement query is an inner
  \<^verbatim>\<open>JOIN trips\<close>, while the totals query reads \<^verbatim>\<open>expenses\<close> alone: in \<open>db2\<close> the pending expense
  of 80 names trip 99, which does not exist, so the statement holds the deposit row only and
  its signed amounts sum to 300, while the balance is 220.
\<close>

theorem orphan_expense_in_balance_not_in_statement:
  "fetch_user_statement db2 1 None None False = [select_dep dep1 None]
   \<and> sum_list (map row_amount (fetch_user_statement db2 1 None None False)) = 300
   \<and> calc_user_totals db2 1 None None False = \<lparr>deposits = 300, expenses = 80, balance = 220\<rparr>"
  by (simp add: query_defs example_defs)

section \<open>Rejected expenses\<close>









section \<open>Status transitions\<close>

lemma login_required_admin:
  "sess_user_id sess \<noteq> None \<Longrightarrow> sess_role sess = Some ''admin'' \<Longrightarrow>
   login_required (Some ''admin'') sess = Inr ()"
  by (simp add: login_required_def)

lemma update_expense_status_twice:
  "update_expense_status status expense_id (update_expense_status status expense_id conn)
     = update_expense_status status expense_id conn"
  by (simp add: update_expense_status_def comp_def)

text \<open>
  C5 fails on the code. No expense of \<open>db1\<close> has id 99, and the call still answers with the
  success flash and the redirect to the dashboard, the store unchanged: there is no
  not-found branch, the \<^verbatim>\<open>UPDATE\<close> matches no row and nothing looks at its row count.
\<close>

theorem missing_expense_reported_as_success:
  "99 \<notin> exp_id ` set (tbl_expenses db1)
   \<and> admin_set_expense_status admin_sess 99 ''aprovado'' db1
       = (Redirect ''admin_dashboard'' ''success'' ''Despesa marcada como aprovado.'', db1)"
  by (simp add: admin_set_expense_status_def login_required_def update_expense_status_def
      example_defs)

text \<open>
  C6. For an administrator, a valid target and an expense that exists, a second call with
  the same arguments returns the same response and the same store as the first: the
  response is the success redirect, and the expense carries the target status.
\<close>

theorem set_status_idempotent:
  assumes "sess_user_id sess \<noteq> None" and "sess_role sess = Some ''admin''"
    and "status \<in> {''pendente'', ''aprovado'', ''rejeitado''}"
    and "x \<in> set (tbl_expenses conn)" and "exp_id x = expense_id"
  shows "admin_set_expense_status sess expense_id status
           (snd (admin_set_expense_status sess expense_id status conn))
         = admin_set_expense_status sess expense_id status conn
       \<and> fst (admin_set_expense_status sess expense_id status conn)
         = Redirect ''admin_dashboard'' ''success'' (''Despesa marcada como '' @ status @ ''.'')
       \<and> x\<lparr>exp_status := status\<rparr>
           \<in> set (tbl_expenses (snd (admin_set_expense_status sess expense_id status conn)))"
proof -
  have ok: "login_required (Some ''admin'') sess = Inr ()"
    using assms(1,2) by (rule login_required_admin)
  have valid: "status \<in> set [''aprovado'', ''rejeitado'', ''pendente'']"
    using assms(3) by auto
  have once: "admin_set_expense_status sess expense_id status c
      = (Redirect ''admin_dashboard'' ''success'' (''Despesa marcada como '' @ status @ ''.''),
         update_expense_status status expense_id c)" for c
    using valid by (simp add: admin_set_expense_status_def ok)
  have "x\<lparr>exp_status := status\<rparr> \<in> set (tbl_expenses (update_expense_status status expense_id conn))"
    using assms(4,5) by (force simp: update_expense_status_def)
  then show ?thesis
    by (simp add: once update_expense_status_twice)
qed

theorem set_status_idempotent_witness:
  "admin_set_expense_status admin_sess 2 ''aprovado''
     (snd (admin_set_expense_status admin_sess 2 ''aprovado'' db1))
     = admin_set_expense_status admin_sess 2 ''aprovado'' db1
   \<and> fst (admin_set_expense_status admin_sess 2 ''aprovado'' db1)
     = Redirect ''admin_dashboard'' ''success'' ''Despesa marcada como aprovado.''
   \<and> exp_rej\<lparr>exp_status := ''aprovado''\<rparr>
       \<in> set (tbl_expenses (snd (admin_set_expense_status admin_sess 2 ''aprovado'' db1)))"
  using set_status_idempotent [of admin_sess "''aprovado''" exp_rej db1 2]
  by (simp add: example_defs)



section \<open>Reversed periods\<close>

lemma reversed_period_empty:
  assumes "s \<noteq> []" "e \<noteq> []" "e < s"
  shows "\<not> where_period (Some s) (Some e) d"
proof
  assume "where_period (Some s) (Some e) d"
  with assms(1,2) have "s \<le> d" "d \<le> e"
    by (simp_all add: where_period_def between_def)
  then have "s \<le> e" by (rule order_trans)
  with assms(3) show False by simp
qed

text \<open>
  C8, as the code has it. Neither helper validates the range. When both endpoints are given
  and \<open>end\<close> is before \<open>start\<close> (as strings, which for ISO dates is the order of the dates),
  \<^verbatim>\<open>BETWEEN\<close> holds for no date: the statement is empty and the three totals are zero.
\<close>

theorem reversed_period_selects_nothing:
  assumes "s \<noteq> []" and "e \<noteq> []" and "e < s"
  shows "fetch_user_statement conn u (Some s) (Some e) inc = []
       \<and> calc_user_totals conn u (Some s) (Some e) inc
           = \<lparr>deposits = 0, expenses = 0, balance = 0\<rparr>"
proof -
  have no: "\<not> where_period (Some s) (Some e) d" for d
    using assms by (rule reversed_period_empty)
  have "dep_rows conn u (Some s) (Some e) = []" "exp_rows conn u (Some s) (Some e) inc = []"
    by (simp_all add: dep_rows_def exp_rows_def no)
  moreover have "q_dep conn u (Some s) (Some e) = 0" "q_exp conn u (Some s) (Some e) inc = 0"
    by (simp_all add: q_dep_def q_exp_def no coalesce_sql_sum)
  ultimately show ?thesis
    by (simp add: fetch_user_statement_def order_by_def calc_user_totals_def)
qed

theorem reversed_period_selects_nothing_witness:
  "''2024-03-31'' \<noteq> [] \<and> ''2024-03-01'' \<noteq> [] \<and> ''2024-03-01'' < ''2024-03-31''
   \<and> fetch_user_statement db1 1 (Some ''2024-03-31'') (Some ''2024-03-01'') True = []
   \<and> calc_user_totals db1 1 (Some ''2024-03-31'') (Some ''2024-03-01'') True
       = \<lparr>deposits = 0, expenses = 0, balance = 0\<rparr>"
  using reversed_period_selects_nothing [of "''2024-03-31''" "''2024-03-01''" db1 1 True]
  by simp

text \<open>
  C8 as the spec words it fails: on \<open>db1\<close>, whose rows all lie inside March 2024, the range
  from 2024-03-31 to 2024-03-01 is accepted and both helpers return ordinary, empty results.
\<close>

theorem reversed_period_accepted:
  "''2024-03-01'' < ''2024-03-31''
   \<and> fetch_user_statement db1 1 (Some ''2024-03-31'') (Some ''2024-03-01'') False = []
   \<and> calc_user_totals db1 1 (Some ''2024-03-31'') (Some ''2024-03-01'') False
       = \<lparr>deposits = 0, expenses = 0, balance = 0\<rparr>"
  by (simp add: query_defs example_defs)

end
